theory Spec2Isabelle
  imports Complex_Main
begin

section \<open>Triplet loss: sampling policies and loss transform\<close>

text \<open>
  A shallow embedding of \<^verbatim>\<open>pyannote/audio/embedding/approaches/triplet_loss.py\<close>.
  Tensors and numpy arrays of floats are lists of reals; labels are values of any type
  with equality; every exception of the source is a value of type \<open>error\<close>.
  The three parallel output lists of a sampler are kept as a triple of lists.
\<close>

subsection \<open>Errors and Python-style helpers\<close>

datatype error =
    ValueError
  | IndexError
  | AttributeError
  | UnboundLocalError
  | InvalidMetric
  | SelfPairError

type_synonym triplets = "nat list \<times> nat list \<times> nat list"

text \<open>One round of the three \<^verbatim>\<open>append\<close> calls that end every sampler's loop body.\<close>

definition append3 :: "triplets \<Rightarrow> nat \<Rightarrow> nat \<Rightarrow> nat \<Rightarrow> triplets" where
  "append3 acc anchor positive negative =
     (case acc of (anchors, positives, negatives) \<Rightarrow>
        (anchors @ [anchor], positives @ [positive], negatives @ [negative]))"

text \<open>A \<^verbatim>\<open>for\<close> loop whose body may raise: the first exception ends the loop.\<close>

fun for_each :: "('x \<Rightarrow> 's \<Rightarrow> error + 's) \<Rightarrow> 'x list \<Rightarrow> 's \<Rightarrow> error + 's" where
  "for_each body [] s = Inr s"
| "for_each body (x # xs) s =
     (case body x s of Inl e \<Rightarrow> Inl e | Inr s' \<Rightarrow> for_each body xs s')"

text \<open>\<^verbatim>\<open>distances[i, j]\<close> on a two-dimensional array, for indices that are not negative.\<close>

definition at2 :: "real list list \<Rightarrow> nat \<Rightarrow> nat \<Rightarrow> error + real" where
  "at2 M i j =
     (if i < length M \<and> j < length (M ! i) then Inr (M ! i ! j) else Inl IndexError)"

text \<open>\<^verbatim>\<open>distances[anchor]\<close>: one row of the square matrix.\<close>

definition row_at :: "real list list \<Rightarrow> nat \<Rightarrow> error + real list" where
  "row_at M i = (if i < length M then Inr (M ! i) else Inl IndexError)"

text \<open>\<^verbatim>\<open>d[idx]\<close> with a list of indices; the empty list gives the empty array.\<close>

definition take_idx :: "real list \<Rightarrow> nat list \<Rightarrow> error + real list" where
  "take_idx d idx =
     (if list_all (\<lambda>i. i < length d) idx then Inr (map (\<lambda>i. d ! i) idx) else Inl IndexError)"

text \<open>\<^verbatim>\<open>np.where(y == v)[0]\<close> and \<^verbatim>\<open>np.where(y != v)[0]\<close>: the indices, ascending.\<close>

definition where_eq :: "'a list \<Rightarrow> 'a \<Rightarrow> nat list" where
  "where_eq y v = filter (\<lambda>i. y ! i = v) [0..<length y]"

definition where_neq :: "'a list \<Rightarrow> 'a \<Rightarrow> nat list" where
  "where_neq y v = filter (\<lambda>i. y ! i \<noteq> v) [0..<length y]"

text \<open>
  \<^verbatim>\<open>np.argmax\<close> and \<^verbatim>\<open>np.argmin\<close>: the index of the first occurrence of the
  largest (smallest) entry; an empty array raises \<^verbatim>\<open>ValueError\<close>.
\<close>

definition np_argmax :: "real list \<Rightarrow> error + nat" where
  "np_argmax xs =
     (if xs = [] then Inl ValueError
      else Inr (length (takeWhile (\<lambda>x. x \<noteq> Max (set xs)) xs)))"

definition np_argmin :: "real list \<Rightarrow> error + nat" where
  "np_argmin xs =
     (if xs = [] then Inl ValueError
      else Inr (length (takeWhile (\<lambda>x. x \<noteq> Min (set xs)) xs)))"

subsection \<open>Condensed and square distance matrices\<close>

text \<open>
  The offset of the pair \<open>(i, j)\<close>, \<open>i < j < n\<close>, in the condensed vector, which lists the
  pairs in row-major upper-triangular order.
\<close>

definition condensed_index :: "nat \<Rightarrow> nat \<Rightarrow> nat \<Rightarrow> nat" where
  "condensed_index n i j = n * i - i * (i + 1) div 2 + (j - i - 1)"

text \<open>
  \<^verbatim>\<open>scipy.spatial.distance.squareform\<close> on a vector: the empty vector gives the 1 x 1
  zero matrix; otherwise \<open>d = ceil (sqrt (2 m))\<close> must satisfy \<open>d (d - 1) = 2 m\<close>
  (\<^verbatim>\<open>ValueError\<close> if not) and the result is the symmetric \<open>d \<times> d\<close> matrix with a zero
  diagonal.
\<close>

definition square_entry :: "nat \<Rightarrow> real list \<Rightarrow> nat \<Rightarrow> nat \<Rightarrow> real" where
  "square_entry d X i j =
     (if i = j then 0 else X ! condensed_index d (min i j) (max i j))"

definition squareform :: "real list \<Rightarrow> error + real list list" where
  "squareform X =
     (let m = length X in
      if m = 0 then Inr [[0]]
      else
        let d = nat \<lceil>sqrt (real (m * 2))\<rceil> in
        if d * (d - 1) \<noteq> m * 2 then Inl ValueError
        else Inr (map (\<lambda>i. map (\<lambda>j. square_entry d X i j) [0..<d]) [0..<d]))"

subsection \<open>The four sampling policies\<close>

text \<open>\<^verbatim>\<open>batch_all\<close>: three nested loops over \<^verbatim>\<open>enumerate(y)\<close>; the distances are not read.\<close>

definition all_negatives :: "'a list \<Rightarrow> nat \<Rightarrow> 'a \<Rightarrow> nat \<Rightarrow> triplets \<Rightarrow> triplets" where
  "all_negatives y anchor y_anchor positive =
     fold (\<lambda>(negative, y_negative) acc.
             if y_negative = y_anchor then acc
             else append3 acc anchor positive negative)
          (enumerate 0 y)"

definition all_positives :: "'a list \<Rightarrow> nat \<Rightarrow> 'a \<Rightarrow> triplets \<Rightarrow> triplets" where
  "all_positives y anchor y_anchor =
     fold (\<lambda>(positive, y_positive) acc.
             if anchor = positive \<or> y_anchor \<noteq> y_positive then acc
             else all_negatives y anchor y_anchor positive acc)
          (enumerate 0 y)"

definition batch_all :: "'a list \<Rightarrow> real list \<Rightarrow> triplets" where
  "batch_all y distances =
     fold (\<lambda>(anchor, y_anchor) acc. all_positives y anchor y_anchor acc)
          (enumerate 0 y) ([], [], [])"

text \<open>\<^verbatim>\<open>batch_easy\<close>: the same loops, reading the square matrix.\<close>

definition easy_negatives ::
  "'a list \<Rightarrow> real list list \<Rightarrow> nat \<Rightarrow> 'a \<Rightarrow> nat \<Rightarrow> real \<Rightarrow> triplets \<Rightarrow> error + triplets" where
  "easy_negatives y sq anchor y_anchor positive d =
     for_each (\<lambda>(negative, y_negative) acc.
                 if y_negative = y_anchor then Inr acc
                 else (case at2 sq anchor negative of
                         Inl e \<Rightarrow> Inl e
                       | Inr dn \<Rightarrow>
                           if d > dn then Inr acc
                           else Inr (append3 acc anchor positive negative)))
              (enumerate 0 y)"

definition easy_positives ::
  "'a list \<Rightarrow> real list list \<Rightarrow> nat \<Rightarrow> 'a \<Rightarrow> triplets \<Rightarrow> error + triplets" where
  "easy_positives y sq anchor y_anchor =
     for_each (\<lambda>(positive, y_positive) acc.
                 if anchor = positive \<or> y_anchor \<noteq> y_positive then Inr acc
                 else (case at2 sq anchor positive of
                         Inl e \<Rightarrow> Inl e
                       | Inr d \<Rightarrow> easy_negatives y sq anchor y_anchor positive d acc))
              (enumerate 0 y)"

definition batch_easy :: "'a list \<Rightarrow> real list \<Rightarrow> error + triplets" where
  "batch_easy y distances =
     (case squareform distances of
        Inl e \<Rightarrow> Inl e
      | Inr sq \<Rightarrow>
          for_each (\<lambda>(anchor, y_anchor) acc. easy_positives y sq anchor y_anchor acc)
                   (enumerate 0 y) ([], [], []))"

text \<open>
  \<^verbatim>\<open>batch_hard\<close>: per anchor, the hardest positive (\<^verbatim>\<open>pos[np.argmax(d[pos])]\<close>) and the
  hardest negative (\<^verbatim>\<open>neg[np.argmin(d[neg])]\<close>).
\<close>

definition hardest_positive :: "'a list \<Rightarrow> real list \<Rightarrow> nat \<Rightarrow> 'a \<Rightarrow> error + nat" where
  "hardest_positive y d anchor y_anchor =
     (let pos = filter (\<lambda>p. p \<noteq> anchor) (where_eq y y_anchor) in
      case take_idx d pos of
        Inl e \<Rightarrow> Inl e
      | Inr dp \<Rightarrow> (case np_argmax dp of Inl e \<Rightarrow> Inl e | Inr k \<Rightarrow> Inr (pos ! k)))"

definition hardest_negative :: "'a list \<Rightarrow> real list \<Rightarrow> 'a \<Rightarrow> error + nat" where
  "hardest_negative y d y_anchor =
     (let neg = where_neq y y_anchor in
      case take_idx d neg of
        Inl e \<Rightarrow> Inl e
      | Inr dn \<Rightarrow> (case np_argmin dn of Inl e \<Rightarrow> Inl e | Inr k \<Rightarrow> Inr (neg ! k)))"

definition batch_hard :: "'a list \<Rightarrow> real list \<Rightarrow> error + triplets" where
  "batch_hard y distances =
     (case squareform distances of
        Inl e \<Rightarrow> Inl e
      | Inr sq \<Rightarrow>
          for_each (\<lambda>(anchor, y_anchor) acc.
                      case row_at sq anchor of
                        Inl e \<Rightarrow> Inl e
                      | Inr d \<Rightarrow>
                          (case hardest_positive y d anchor y_anchor of
                             Inl e \<Rightarrow> Inl e
                           | Inr positive \<Rightarrow>
                               (case hardest_negative y d y_anchor of
                                  Inl e \<Rightarrow> Inl e
                                | Inr negative \<Rightarrow> Inr (append3 acc anchor positive negative))))
                   (enumerate 0 y) ([], [], []))"

text \<open>
  \<^verbatim>\<open>batch_negative\<close>: the hardest negative is looked up once per anchor, before the loop
  over the same-label indices.
\<close>

definition negative_positives :: "'a list \<Rightarrow> nat \<Rightarrow> 'a \<Rightarrow> nat \<Rightarrow> triplets \<Rightarrow> triplets" where
  "negative_positives y anchor y_anchor negative =
     fold (\<lambda>positive acc.
             if positive = anchor then acc
             else append3 acc anchor positive negative)
          (where_eq y y_anchor)"

definition batch_negative :: "'a list \<Rightarrow> real list \<Rightarrow> error + triplets" where
  "batch_negative y distances =
     (case squareform distances of
        Inl e \<Rightarrow> Inl e
      | Inr sq \<Rightarrow>
          for_each (\<lambda>(anchor, y_anchor) acc.
                      case row_at sq anchor of
                        Inl e \<Rightarrow> Inl e
                      | Inr d \<Rightarrow>
                          (case hardest_negative y d y_anchor of
                             Inl e \<Rightarrow> Inl e
                           | Inr negative \<Rightarrow>
                               Inr (negative_positives y anchor y_anchor negative acc)))
                   (enumerate 0 y) ([], [], []))"

subsection \<open>Construction\<close>

text \<open>
  Modelled from the spec: \<^verbatim>\<open>max_distance\<close> is a property of the base class
  \<^verbatim>\<open>EmbeddingApproach\<close>, whose module is not among the sources. The spec fixes the
  constant \<open>D\<close> per metric (2 for cosine, the upper end \<open>\<pi>\<close> of the angular range; the
  class docstring gives 2 for euclidean) and lets an unrecognised metric fail with
  \<^verbatim>\<open>InvalidMetric\<close> at construction, which reads this property.
\<close>

definition max_distance :: "string \<Rightarrow> error + real" where
  "max_distance m =
     (if m = ''cosine'' then Inr 2
      else if m = ''angular'' then Inr pi
      else if m = ''euclidean'' then Inr 2
      else Inl InvalidMetric)"

text \<open>
  The fields of a \<^verbatim>\<open>TripletLoss\<close> object that the sampling and the loss read. The
  generator settings (\<^verbatim>\<open>per_label\<close>, \<^verbatim>\<open>duration\<close>, ...) are stored unchanged by
  \<^verbatim>\<open>__init__\<close> and read by \<^verbatim>\<open>get_batch_generator\<close> only.
\<close>

record TripletLoss =
  metric :: string
  margin :: real
  margin' :: real
  clamp :: string
  sampling :: string

text \<open>
  \<^verbatim>\<open>__init__\<close>: \<^verbatim>\<open>self.margin_ = self.margin * self.max_distance\<close> comes first, then the
  two membership tests, each raising \<^verbatim>\<open>ValueError\<close>. An exception leaves no object.
  The field \<^verbatim>\<open>margin_\<close> is written \<open>margin'\<close>.
\<close>

definition init :: "string \<Rightarrow> real \<Rightarrow> string \<Rightarrow> string \<Rightarrow> error + TripletLoss" where
  "init m mg c s =
     (case max_distance m of
        Inl e \<Rightarrow> Inl e
      | Inr D \<Rightarrow>
          if c \<notin> {''positive'', ''sigmoid'', ''softmargin''} then Inl ValueError
          else if s \<notin> {''all'', ''hard'', ''negative'', ''easy''} then Inl ValueError
          else Inr \<lparr>metric = m, margin = mg, margin' = mg * D, clamp = c, sampling = s\<rparr>)"

subsection \<open>Loss transform\<close>

text \<open>
  Modelled from the spec: \<^verbatim>\<open>to_condensed\<close> is imported from \<^verbatim>\<open>pyannote.core\<close>, which is
  not among the sources. For lists of rows and columns of equal length it gives, pair by
  pair, the offset \<open>n i - i (i + 1) / 2 + j - i - 1\<close> after swapping so that \<open>i < j\<close>, and
  fails with \<^verbatim>\<open>SelfPairError\<close> if some row equals its column. Lists of different lengths
  are outside the spec's contract and are rejected here.
\<close>

definition to_condensed :: "int \<Rightarrow> nat list \<Rightarrow> nat list \<Rightarrow> error + int list" where
  "to_condensed n rows cols =
     (if length rows \<noteq> length cols then Inl ValueError
      else if list_ex (\<lambda>(i, j). i = j) (zip rows cols) then Inl SelfPairError
      else Inr (map (\<lambda>(r, c).
                       let i = int (min r c); j = int (max r c)
                       in n * i - i * (i + 1) div 2 + j - i - 1)
                    (zip rows cols)))"

text \<open>\<^verbatim>\<open>int(x)\<close> on a float: truncation towards zero.\<close>

definition py_int :: "real \<Rightarrow> int" where
  "py_int x = (if 0 \<le> x then \<lfloor>x\<rfloor> else \<lceil>x\<rceil>)"

text \<open>\<^verbatim>\<open>n = int(.5 * (1 + np.sqrt(1 + 8 * len(distances))))\<close>\<close>

definition estimate_n :: "nat \<Rightarrow> int" where
  "estimate_n m = py_int (1 / 2 * (1 + sqrt (1 + 8 * real m)))"

text \<open>
  \<^verbatim>\<open>distances[idx]\<close> on a one-dimensional tensor with an array of integer indices; a
  negative index counts from the end.
\<close>

definition index_select :: "real list \<Rightarrow> int list \<Rightarrow> error + real list" where
  "index_select t idx =
     (if list_all (\<lambda>k. - int (length t) \<le> k \<and> k < int (length t)) idx
      then Inr (map (\<lambda>k. t ! nat (if k < 0 then k + int (length t) else k)) idx)
      else Inl IndexError)"

text \<open>
  \<^verbatim>\<open>triplet_loss\<close> called with \<^verbatim>\<open>return_delta=True\<close>: the result is
  \<^verbatim>\<open>(loss, delta, pos, neg)\<close>; with the default \<^verbatim>\<open>return_delta=False\<close> only the first
  component is returned. With a \<^verbatim>\<open>clamp\<close> outside the three names no branch assigns
  \<^verbatim>\<open>loss\<close>.
\<close>

definition triplet_loss ::
  "TripletLoss \<Rightarrow> real list \<Rightarrow> nat list \<Rightarrow> nat list \<Rightarrow> nat list \<Rightarrow>
     error + (real list \<times> real list \<times> int list \<times> int list)" where
  "triplet_loss self distances anchors positives negatives =
     (let n = estimate_n (length distances) in
      case to_condensed n anchors positives of
        Inl e \<Rightarrow> Inl e
      | Inr pos \<Rightarrow>
     (case to_condensed n anchors negatives of
        Inl e \<Rightarrow> Inl e
      | Inr neg \<Rightarrow>
     (case index_select distances pos of
        Inl e \<Rightarrow> Inl e
      | Inr dpos \<Rightarrow>
     (case index_select distances neg of
        Inl e \<Rightarrow> Inl e
      | Inr dneg \<Rightarrow>
          (let delta = map2 (\<lambda>a b. a - b) dpos dneg in
           if clamp self = ''positive''
             then Inr (map (\<lambda>x. max (x + margin' self) 0) delta, delta, pos, neg)
           else if clamp self = ''softmargin''
             then Inr (map (\<lambda>x. ln (1 + exp x)) delta, delta, pos, neg)
           else if clamp self = ''sigmoid''
             then Inr (map (\<lambda>x. 1 / (1 + exp (- (10 * (x + margin' self))))) delta,
                       delta, pos, neg)
           else Inl UnboundLocalError)))))"

subsection \<open>Batch loss\<close>

text \<open>\<^verbatim>\<open>getattr(self, 'batch_{0}'.format(self.sampling))\<close> applied to the labels and distances.\<close>

definition sample :: "string \<Rightarrow> 'a list \<Rightarrow> real list \<Rightarrow> error + triplets" where
  "sample s y distances =
     (if s = ''all'' then Inr (batch_all y distances)
      else if s = ''hard'' then batch_hard y distances
      else if s = ''negative'' then batch_negative y distances
      else if s = ''easy'' then batch_easy y distances
      else Inl AttributeError)"

text \<open>\<^verbatim>\<open>torch.mean\<close>: the mean of an empty tensor is \<^verbatim>\<open>nan\<close>, here \<open>None\<close>.\<close>

definition torch_mean :: "real list \<Rightarrow> real option" where
  "torch_mean xs = (if xs = [] then None else Some (sum_list xs / real (length xs)))"

text \<open>
  \<^verbatim>\<open>batch_loss\<close>, from the pairwise distances on: the embedding network
  (\<^verbatim>\<open>self.forward\<close>) and \<^verbatim>\<open>self.pdist\<close> are outside the sources, so the condensed
  distances of the batch are an argument, next to the labels \<^verbatim>\<open>batch['y']\<close>.
\<close>

definition batch_loss :: "TripletLoss \<Rightarrow> 'a list \<Rightarrow> real list \<Rightarrow> error + real option" where
  "batch_loss self y distances =
     (case sample (sampling self) y distances of
        Inl e \<Rightarrow> Inl e
      | Inr (anchors, positives, negatives) \<Rightarrow>
          (case triplet_loss self distances anchors positives negatives of
             Inl e \<Rightarrow> Inl e
           | Inr (losses, deltas, pos, neg) \<Rightarrow> Inr (torch_mean losses)))"

subsection \<open>Triplet lists\<close>

text \<open>
  The samplers' result read as a list of triplets, and back; \<open>extend acc ts\<close> is the
  accumulator after appending the triplets \<open>ts\<close> one by one.
\<close>

definition unzip3 :: "(nat \<times> nat \<times> nat) list \<Rightarrow> triplets" where
  "unzip3 ts = (map fst ts, map (fst \<circ> snd) ts, map (snd \<circ> snd) ts)"

definition zip3 :: "triplets \<Rightarrow> (nat \<times> nat \<times> nat) list" where
  "zip3 acc = (case acc of (anchors, positives, negatives) \<Rightarrow> zip anchors (zip positives negatives))"

definition extend :: "triplets \<Rightarrow> (nat \<times> nat \<times> nat) list \<Rightarrow> triplets" where
  "extend acc ts =
     (case acc of (anchors, positives, negatives) \<Rightarrow>
        (anchors @ map fst ts, positives @ map (fst \<circ> snd) ts, negatives @ map (snd \<circ> snd) ts))"

text \<open>
  The triplets appended by a loop whose body either appends the triplets \<open>h x\<close> or raises:
  the first exception ends the loop.
\<close>

fun collect :: "('x \<Rightarrow> error + (nat \<times> nat \<times> nat) list) \<Rightarrow> 'x list \<Rightarrow> error + (nat \<times> nat \<times> nat) list" where
  "collect h [] = Inr []"
| "collect h (x # xs) =
     (case h x of
        Inl e \<Rightarrow> Inl e
      | Inr ts \<Rightarrow> (case collect h xs of Inl e \<Rightarrow> Inl e | Inr us \<Rightarrow> Inr (ts @ us)))"

text \<open>
  The triplets that one round of the anchor loop of \<open>batch_hard\<close> and of
  \<open>batch_negative\<close> appends, or the exception it raises.
\<close>

definition hard_anchor :: "'a list \<Rightarrow> real list list \<Rightarrow> nat \<times> 'a \<Rightarrow> error + (nat \<times> nat \<times> nat) list" where
  "hard_anchor y sq x =
     (case x of (anchor, y_anchor) \<Rightarrow>
        (case row_at sq anchor of
           Inl e \<Rightarrow> Inl e
         | Inr d \<Rightarrow>
             (case hardest_positive y d anchor y_anchor of
                Inl e \<Rightarrow> Inl e
              | Inr positive \<Rightarrow>
                  (case hardest_negative y d y_anchor of
                     Inl e \<Rightarrow> Inl e
                   | Inr negative \<Rightarrow> Inr [(anchor, positive, negative)]))))"

definition negative_anchor ::
  "'a list \<Rightarrow> real list list \<Rightarrow> nat \<times> 'a \<Rightarrow> error + (nat \<times> nat \<times> nat) list" where
  "negative_anchor y sq x =
     (case x of (anchor, y_anchor) \<Rightarrow>
        (case row_at sq anchor of
           Inl e \<Rightarrow> Inl e
         | Inr d \<Rightarrow>
             (case hardest_negative y d y_anchor of
                Inl e \<Rightarrow> Inl e
              | Inr negative \<Rightarrow>
                  Inr [(anchor, positive, negative).
                         positive \<leftarrow> where_eq y y_anchor, positive \<noteq> anchor])))"

section \<open>Properties\<close>

subsection \<open>Loops that only append\<close>

lemma extend_Nil: "extend acc [] = acc"
  by (simp add: extend_def split: prod.splits)

lemma extend_extend: "extend (extend acc ts) us = extend acc (ts @ us)"
  by (simp add: extend_def split: prod.splits)

lemma append3_extend: "append3 acc a p n = extend acc [(a, p, n)]"
  by (simp add: append3_def extend_def split: prod.splits)

lemma extend_empty: "extend ([], [], []) ts = unzip3 ts"
  by (simp add: extend_def unzip3_def)

lemma zip3_unzip3: "zip3 (unzip3 ts) = ts"
  by (induction ts) (simp_all add: zip3_def unzip3_def)

lemma fold_extend:
  assumes "\<And>x acc. x \<in> set xs \<Longrightarrow> body x acc = extend acc (g x)"
  shows "fold body xs acc = extend acc (concat (map g xs))"
  using assms
proof (induction xs arbitrary: acc)
  case Nil
  show ?case by (simp add: extend_Nil)
next
  case (Cons x xs)
  have "fold body (x # xs) acc = fold body xs (extend acc (g x))"
    using Cons.prems by simp
  also have "\<dots> = extend (extend acc (g x)) (concat (map g xs))"
    using Cons.IH Cons.prems by simp
  finally show ?case by (simp add: extend_extend)
qed

lemma for_each_extend:
  assumes "\<And>x acc. x \<in> set xs \<Longrightarrow> body x acc = Inr (extend acc (g x))"
  shows "for_each body xs acc = Inr (extend acc (concat (map g xs)))"
  using assms
proof (induction xs arbitrary: acc)
  case Nil
  show ?case by (simp add: extend_Nil)
next
  case (Cons x xs)
  have "for_each body (x # xs) acc = for_each body xs (extend acc (g x))"
    using Cons.prems by simp
  also have "\<dots> = Inr (extend (extend acc (g x)) (concat (map g xs)))"
    using Cons.IH Cons.prems by simp
  finally show ?case by (simp add: extend_extend)
qed

lemma enumerate_map_nth: "enumerate 0 y = map (\<lambda>i. (i, y ! i)) [0..<length y]"
  by (rule nth_equalityI) (simp_all add: nth_enumerate_eq)

lemma concat_map_enumerate:
  "concat (map (\<lambda>(i, v). f i v) (enumerate 0 y)) = concat (map (\<lambda>i. f i (y ! i)) [0..<length y])"
  by (simp add: enumerate_map_nth comp_def)

subsection \<open>The \<open>all\<close> policy\<close>

lemma all_negatives_eq:
  "all_negatives y anchor y_anchor positive acc =
     extend acc [(anchor, positive, negative).
                   negative \<leftarrow> [0..<length y], y ! negative \<noteq> y_anchor]"
  unfolding all_negatives_def
  apply (subst fold_extend [where g = "\<lambda>(negative, y_negative).
           if y_negative \<noteq> y_anchor then [(anchor, positive, negative)] else []"])
   apply (auto simp: append3_extend extend_Nil)[1]
  apply (simp add: concat_map_enumerate)
  done

lemma all_positives_eq:
  "all_positives y anchor y_anchor acc =
     extend acc [(anchor, positive, negative).
                   positive \<leftarrow> [0..<length y], positive \<noteq> anchor \<and> y ! positive = y_anchor,
                   negative \<leftarrow> [0..<length y], y ! negative \<noteq> y_anchor]"
  unfolding all_positives_def
  apply (subst fold_extend [where g = "\<lambda>(positive, y_positive).
           if positive \<noteq> anchor \<and> y_positive = y_anchor
           then [(anchor, positive, negative).
                   negative \<leftarrow> [0..<length y], y ! negative \<noteq> y_anchor]
           else []"])
   apply (auto simp: all_negatives_eq extend_Nil)[1]
  apply (simp add: concat_map_enumerate)
  done

lemma batch_all_eq:
  "batch_all y distances =
     unzip3 [(anchor, positive, negative).
               anchor \<leftarrow> [0..<length y],
               positive \<leftarrow> [0..<length y], positive \<noteq> anchor \<and> y ! positive = y ! anchor,
               negative \<leftarrow> [0..<length y], y ! negative \<noteq> y ! anchor]"
  unfolding batch_all_def
  apply (subst fold_extend [where g = "\<lambda>(anchor, y_anchor).
           [(anchor, positive, negative).
              positive \<leftarrow> [0..<length y], positive \<noteq> anchor \<and> y ! positive = y_anchor,
              negative \<leftarrow> [0..<length y], y ! negative \<noteq> y_anchor]"])
   apply (auto simp: all_positives_eq)[1]
  apply (simp add: concat_map_enumerate extend_empty)
  done

text \<open>
  Claim C4. The \<open>all\<close> policy lists, anchor by anchor in index order, then positive by
  positive, then negative by negative, one triplet for every positive (another index
  with the anchor's label) and every negative (an index with a different label); on the
  labels \<open>[A, A, B, B]\<close> these are the eight triplets (0,1,2), (0,1,3), (1,0,2), (1,0,3),
  (2,3,0), (2,3,1), (3,2,0), (3,2,1), whatever the distances.
\<close>

theorem batch_all_enumerates_all_combinations:
  "batch_all y distances =
     unzip3 [(anchor, positive, negative).
               anchor \<leftarrow> [0..<length y],
               positive \<leftarrow> [0..<length y], positive \<noteq> anchor \<and> y ! positive = y ! anchor,
               negative \<leftarrow> [0..<length y], y ! negative \<noteq> y ! anchor]
   \<and> zip3 (batch_all [''A'', ''A'', ''B'', ''B''] d) =
       [(0, 1, 2), (0, 1, 3), (1, 0, 2), (1, 0, 3), (2, 3, 0), (2, 3, 1), (3, 2, 0), (3, 2, 1)]"
  by (simp add: batch_all_eq zip3_unzip3 upt_conv_Cons)

theorem batch_all_enumerates_all_combinations_witness:
  "batch_all [7, 8, 7 :: nat] [1, 2, 3] = ([0, 2], [2, 0], [1, 1])"
  using batch_all_enumerates_all_combinations [of "[7, 8, 7 :: nat]" "[1, 2, 3]"]
  by (simp add: unzip3_def upt_conv_Cons)

subsection \<open>The square form of a condensed vector\<close>

lemma ceil_sqrt_pronic:
  assumes "2 \<le> n"
  shows "nat \<lceil>sqrt (real (n * (n - 1)))\<rceil> = n"
proof -
  have lo: "real (n - 1) < sqrt (real (n * (n - 1)))"
  proof (rule real_less_rsqrt)
    have "(n - 1) * (n - 1) < n * (n - 1)" using assms by simp
    then have "real ((n - 1) * (n - 1)) < real (n * (n - 1))" by (rule of_nat_less_iff [THEN iffD2])
    then show "(real (n - 1))\<^sup>2 < real (n * (n - 1))" by (simp only: power2_eq_square of_nat_mult)
  qed
  have hi: "sqrt (real (n * (n - 1))) \<le> real n"
  proof (rule real_le_lsqrt)
    have "n * (n - 1) \<le> n * n" by simp
    then have "real (n * (n - 1)) \<le> real (n * n)" by (rule of_nat_le_iff [THEN iffD2])
    then show "real (n * (n - 1)) \<le> (real n)\<^sup>2" by (simp only: power2_eq_square of_nat_mult)
  qed simp_all
  have "\<lceil>sqrt (real (n * (n - 1)))\<rceil> = int (n - 1) + 1"
    by (rule ceiling_unique) (use lo hi assms in \<open>simp_all add: of_nat_diff\<close>)
  then show ?thesis using assms by simp
qed

lemma pronic_even: "n * (n - 1) div 2 * 2 = n * (n - (1::nat))"
proof -
  have "even (n * (n - 1))" by (cases n) simp_all
  then show ?thesis by simp
qed

lemma squareform_consistent:
  assumes "2 \<le> n" and "length X = n * (n - 1) div 2"
  shows "squareform X = Inr (map (\<lambda>i. map (\<lambda>j. square_entry n X i j) [0..<n]) [0..<n])"
proof -
  have m2: "length X * 2 = n * (n - 1)" unfolding assms(2) by (rule pronic_even)
  have "0 < n * (n - 1)" using assms(1) by simp
  then have pos: "length X \<noteq> 0" using m2 by (metis mult_0 less_numeral_extra(3))
  show ?thesis
    using pos m2 ceil_sqrt_pronic [OF assms(1)] by (simp add: squareform_def Let_def)
qed

lemma squareform_rows:
  assumes "squareform X = Inr sq" and "i < length sq"
  shows "length (sq ! i) = length sq"
  using assms by (auto simp: squareform_def Let_def split: if_splits)

lemma at2_squareform:
  assumes "squareform X = Inr sq" and "i < length sq" and "j < length sq"
  shows "at2 sq i j = Inr (sq ! i ! j)"
  using assms squareform_rows [OF assms(1,2)] by (simp add: at2_def)

lemma squareform_scenario: "squareform [1/10, 9/10, 7/10, 8/10, 6/10, 2/10] =
   Inr [[0, 1/10, 9/10, 7/10], [1/10, 0, 8/10, 6/10], [9/10, 8/10, 0, 2/10], [7/10, 6/10, 2/10, 0]]"
  by (simp add: squareform_consistent [of 4] upt_conv_Cons square_entry_def condensed_index_def)

lemma squareform_ones: "squareform [1, 1, 1] = Inr [[0, 1, 1], [1, 0, 1], [1, 1, 0]]"
  by (simp add: squareform_consistent [of 3] upt_conv_Cons square_entry_def condensed_index_def)

subsection \<open>The \<open>easy\<close> policy\<close>

lemma easy_negatives_eq:
  assumes sq: "squareform X = Inr sq" and len: "length y \<le> length sq" and a: "anchor < length y"
  shows "easy_negatives y sq anchor y_anchor positive d acc =
     Inr (extend acc [(anchor, positive, negative).
                   negative \<leftarrow> [0..<length y],
                   y ! negative \<noteq> y_anchor \<and> d \<le> sq ! anchor ! negative])"
proof -
  let ?g = "\<lambda>(negative, y_negative).
           if y_negative \<noteq> y_anchor \<and> d \<le> sq ! anchor ! negative
           then [(anchor, positive, negative)] else []"
  have step: "(case x of (negative, y_negative) \<Rightarrow> \<lambda>acc.
                 if y_negative = y_anchor then Inr acc
                 else (case at2 sq anchor negative of
                         Inl e \<Rightarrow> Inl e
                       | Inr dn \<Rightarrow>
                           if d > dn then Inr acc
                           else Inr (append3 acc anchor positive negative))) acc
              = Inr (extend acc (?g x))"
    if "x \<in> set (enumerate 0 y)" for x acc
  proof -
    obtain negative y_negative where x: "x = (negative, y_negative)" by (cases x)
    have "negative < length y" using that x by (simp add: in_set_enumerate_eq)
    then have "at2 sq anchor negative = Inr (sq ! anchor ! negative)"
      using at2_squareform [OF sq] a len by simp
    then show ?thesis
      by (simp add: x append3_extend extend_Nil not_less)
  qed
  show ?thesis
    unfolding easy_negatives_def
    by (subst for_each_extend [where g = ?g, OF step]) (simp_all add: concat_map_enumerate)
qed

lemma easy_positives_eq:
  assumes sq: "squareform X = Inr sq" and len: "length y \<le> length sq" and a: "anchor < length y"
  shows "easy_positives y sq anchor y_anchor acc =
     Inr (extend acc [(anchor, positive, negative).
                   positive \<leftarrow> [0..<length y], positive \<noteq> anchor \<and> y ! positive = y_anchor,
                   negative \<leftarrow> [0..<length y],
                   y ! negative \<noteq> y_anchor \<and> sq ! anchor ! positive \<le> sq ! anchor ! negative])"
proof -
  let ?g = "\<lambda>(positive, y_positive).
           if positive \<noteq> anchor \<and> y_positive = y_anchor
           then [(anchor, positive, negative).
                   negative \<leftarrow> [0..<length y],
                   y ! negative \<noteq> y_anchor \<and> sq ! anchor ! positive \<le> sq ! anchor ! negative]
           else []"
  have step: "(case x of (positive, y_positive) \<Rightarrow> \<lambda>acc.
                 if anchor = positive \<or> y_anchor \<noteq> y_positive then Inr acc
                 else (case at2 sq anchor positive of
                         Inl e \<Rightarrow> Inl e
                       | Inr d \<Rightarrow> easy_negatives y sq anchor y_anchor positive d acc)) acc
              = Inr (extend acc (?g x))"
    if "x \<in> set (enumerate 0 y)" for x acc
  proof -
    obtain positive y_positive where x: "x = (positive, y_positive)" by (cases x)
    have "positive < length y" using that x by (simp add: in_set_enumerate_eq)
    then have "at2 sq anchor positive = Inr (sq ! anchor ! positive)"
      using at2_squareform [OF sq] a len by simp
    then show ?thesis
      by (auto simp add: x easy_negatives_eq [OF sq len a] extend_Nil)
  qed
  show ?thesis
    unfolding easy_positives_def
    by (subst for_each_extend [where g = ?g, OF step]) (simp_all add: concat_map_enumerate)
qed

lemma batch_easy_eq:
  assumes sq: "squareform distances = Inr sq" and len: "length y \<le> length sq"
  shows "batch_easy y distances =
     Inr (unzip3 [(anchor, positive, negative).
               anchor \<leftarrow> [0..<length y],
               positive \<leftarrow> [0..<length y], positive \<noteq> anchor \<and> y ! positive = y ! anchor,
               negative \<leftarrow> [0..<length y],
               y ! negative \<noteq> y ! anchor \<and> sq ! anchor ! positive \<le> sq ! anchor ! negative])"
proof -
  let ?g = "\<lambda>(anchor, y_anchor).
           [(anchor, positive, negative).
               positive \<leftarrow> [0..<length y], positive \<noteq> anchor \<and> y ! positive = y_anchor,
               negative \<leftarrow> [0..<length y],
               y ! negative \<noteq> y_anchor \<and> sq ! anchor ! positive \<le> sq ! anchor ! negative]"
  have step: "(case x of (anchor, y_anchor) \<Rightarrow> \<lambda>acc. easy_positives y sq anchor y_anchor acc) acc
              = Inr (extend acc (?g x))"
    if "x \<in> set (enumerate 0 y)" for x acc
  proof -
    obtain anchor y_anchor where x: "x = (anchor, y_anchor)" by (cases x)
    have "anchor < length y" using that x by (simp add: in_set_enumerate_eq)
    then show ?thesis
      by (simp add: x easy_positives_eq [OF sq len])
  qed
  show ?thesis
    unfolding batch_easy_def
    by (simp add: sq for_each_extend [where g = ?g, OF step] concat_map_enumerate extend_empty)
qed

text \<open>
  Claim C7. The \<open>easy\<close> policy emits the triplet (anchor, positive, negative) exactly when
  anchor and positive carry the same label and differ, the negative carries another
  label, and the anchor is at least as far from the negative as from the positive:
  equal distances are admitted. In the scenario with labels \<open>[A, A, B, B]\<close>, anchor 0 and
  positive 1 give (0,1,2) and (0,1,3). The distances are read in the square form of the
  condensed vector, which must have a row for every label.
\<close>

theorem batch_easy_admits_equal_distances:
  assumes "squareform distances = Inr sq" and "length y \<le> length sq"
  shows "(\<exists>r. batch_easy y distances = Inr r \<and>
            (\<forall>anchor positive negative.
               (anchor, positive, negative) \<in> set (zip3 r) \<longleftrightarrow>
                 anchor < length y \<and> positive < length y \<and> negative < length y \<and>
                 y ! anchor = y ! positive \<and> anchor \<noteq> positive \<and>
                 y ! negative \<noteq> y ! anchor \<and>
                 sq ! anchor ! negative \<ge> sq ! anchor ! positive))
       \<and> (\<exists>r. batch_easy [''A'', ''A'', ''B'', ''B''] [1/10, 9/10, 7/10, 8/10, 6/10, 2/10] = Inr r \<and>
            filter (\<lambda>(anchor, positive, negative). anchor = 0 \<and> positive = 1) (zip3 r) = [(0, 1, 2), (0, 1, 3)])"
proof
  show "\<exists>r. batch_easy y distances = Inr r \<and>
            (\<forall>anchor positive negative.
               (anchor, positive, negative) \<in> set (zip3 r) \<longleftrightarrow>
                 anchor < length y \<and> positive < length y \<and> negative < length y \<and>
                 y ! anchor = y ! positive \<and> anchor \<noteq> positive \<and>
                 y ! negative \<noteq> y ! anchor \<and>
                 sq ! anchor ! negative \<ge> sq ! anchor ! positive)"
    by (subst batch_easy_eq [OF assms]) (auto simp: zip3_unzip3)
  show "\<exists>r. batch_easy [''A'', ''A'', ''B'', ''B''] [1/10, 9/10, 7/10, 8/10, 6/10, 2/10] = Inr r \<and>
            filter (\<lambda>(anchor, positive, negative). anchor = 0 \<and> positive = 1) (zip3 r) = [(0, 1, 2), (0, 1, 3)]"
    by (subst batch_easy_eq [OF squareform_scenario]) (simp_all add: upt_conv_Cons zip3_unzip3)
qed

theorem batch_easy_admits_equal_distances_witness:
  "squareform [1, 1, 1] = Inr [[0, 1, 1], [1, 0, 1], [1, 1, 0]] \<and>
   length [''A'', ''A'', ''B''] \<le> length [[0, 1, 1], [1, 0, 1], [1, 1, 0::real]] \<and>
   (\<exists>r. batch_easy [''A'', ''A'', ''B''] [1, 1, 1] = Inr r \<and> (0, 1, 2) \<in> set (zip3 r) \<and> (0, 2, 1) \<notin> set (zip3 r))"
proof -
  have len: "length [''A'', ''A'', ''B''] \<le> length [[0, 1, 1], [1, 0, 1], [1, 1, 0::real]]" by simp
  show ?thesis
    using batch_easy_admits_equal_distances [OF squareform_ones len] squareform_ones by auto
qed

subsection \<open>Construction\<close>

text \<open>
  Claim C1. Construction with an invalid \<^verbatim>\<open>metric\<close>, \<^verbatim>\<open>clamp\<close> or \<^verbatim>\<open>sampling\<close> string
  fails and returns no object: construction succeeds exactly when the three strings are
  in their allowed sets, so every constructed object carries allowed strings. The test
  of \<^verbatim>\<open>metric\<close> is the one made by \<open>max_distance\<close>.
\<close>

theorem init_fails_fast_on_invalid_configuration:
  "((\<exists>self. init m mg c s = Inr self) \<longleftrightarrow>
      m \<in> {''euclidean'', ''cosine'', ''angular''} \<and>
      c \<in> {''positive'', ''sigmoid'', ''softmargin''} \<and>
      s \<in> {''all'', ''hard'', ''negative'', ''easy''})
   \<and> (\<forall>self. init m mg c s = Inr self \<longrightarrow>
         metric self \<in> {''euclidean'', ''cosine'', ''angular''} \<and>
         clamp self \<in> {''positive'', ''sigmoid'', ''softmargin''} \<and>
         sampling self \<in> {''all'', ''hard'', ''negative'', ''easy''})"
  by (auto simp: init_def max_distance_def split: if_splits sum.splits)

theorem init_fails_fast_on_invalid_configuration_witness:
  "(\<exists>self. init ''cosine'' (1/5) ''positive'' ''all'' = Inr self \<and> metric self = ''cosine'' \<and>
       clamp self = ''positive'' \<and> sampling self = ''all'')
   \<and> (\<nexists>self. init ''manhattan'' (1/5) ''positive'' ''all'' = Inr self)
   \<and> (\<nexists>self. init ''cosine'' (1/5) ''relu'' ''all'' = Inr self)
   \<and> (\<nexists>self. init ''cosine'' (1/5) ''positive'' ''random'' = Inr self)"
  using init_fails_fast_on_invalid_configuration [of "''cosine''" "1/5" "''positive''" "''all''"]
    init_fails_fast_on_invalid_configuration [of "''manhattan''" "1/5" "''positive''" "''all''"]
    init_fails_fast_on_invalid_configuration [of "''cosine''" "1/5" "''relu''" "''all''"]
    init_fails_fast_on_invalid_configuration [of "''cosine''" "1/5" "''positive''" "''random''"]
  by (simp add: init_def max_distance_def)

subsection \<open>The loss transform\<close>

lemma estimate_n_triangular:
  assumes "1 \<le> n"
  shows "estimate_n (n * (n - 1) div 2) = int n"
proof -
  have "real (n * (n - 1) div 2) * 2 = real (n * (n - 1) div 2 * 2)" by simp
  also have "\<dots> = real (n * (n - 1))" by (simp only: pronic_even)
  also have "\<dots> = real n * (real n - 1)" using assms by (simp add: of_nat_diff)
  finally have m: "real (n * (n - 1) div 2) * 2 = real n * (real n - 1)" .
  have "1 + 8 * real (n * (n - 1) div 2) = 1 + 4 * (real (n * (n - 1) div 2) * 2)" by simp
  also have "\<dots> = (2 * real n - 1)\<^sup>2" unfolding m by (simp add: power2_eq_square algebra_simps)
  finally have sq: "1 + 8 * real (n * (n - 1) div 2) = (2 * real n - 1)\<^sup>2" .
  have "sqrt (1 + 8 * real (n * (n - 1) div 2)) = 2 * real n - 1"
    unfolding sq using assms by simp
  then show ?thesis by (simp add: estimate_n_def py_int_def)
qed

lemma triplet_loss_positive:
  assumes "clamp self = ''positive''"
    and "triplet_loss self distances anchors positives negatives = Inr (loss, delta, pos, neg)"
  shows "loss = map (\<lambda>x. max (x + margin' self) 0) delta"
  using assms by (auto simp: triplet_loss_def Let_def split: sum.splits)


lemma take_idx_ok: "\<forall>i\<in>set idx. i < length d \<Longrightarrow> take_idx d idx = Inr (map (\<lambda>i. d ! i) idx)"
  by (simp add: take_idx_def list_all_iff)

lemma triplet_loss_scenario:
  "triplet_loss \<lparr>metric = ''cosine'', margin = 1/5, margin' = 1/5 * 2, clamp = ''positive'', sampling = ''all''\<rparr>
       [1/10, 9/10, 7/10, 8/10, 6/10, 2/10] [0, 0] [1, 1] [2, 3]
   = Inr ([0, 0], [- (8/10), - (6/10)], [0, 0], [1, 2])"
  using estimate_n_triangular [of 4]
  by (simp add: triplet_loss_def to_condensed_def index_select_def)

lemma init_cosine:
  "init ''cosine'' (1/5) ''positive'' ''all'' =
     Inr \<lparr>metric = ''cosine'', margin = 1/5, margin' = 1/5 * 2, clamp = ''positive'', sampling = ''all''\<rparr>"
  by (simp add: init_def max_distance_def)

lemma triplet_loss_scenario_hard:
  "triplet_loss \<lparr>metric = ''cosine'', margin = 1/5, margin' = 1/5 * 2, clamp = ''positive'', sampling = ''all''\<rparr>
       [1/10, 9/10, 7/10, 8/10, 6/10, 2/10] [2] [0] [3]
   = Inr ([11/10], [7/10], [1], [5])"
proof -
  have l: "length [1/10, 9/10, 7/10, 8/10, 6/10, 2/10 :: real] = 4 * (4 - 1) div 2"
    by simp
  have "estimate_n (4 * (4 - 1) div 2) = int 4"
    by (rule estimate_n_triangular) simp
  then have n: "estimate_n (length [1/10, 9/10, 7/10, 8/10, 6/10, 2/10 :: real]) = 4"
    by (simp only: l)
  show ?thesis
    by (simp only: triplet_loss_def n Let_def) (simp add: to_condensed_def index_select_def)
qed

text \<open>
  Claim C8. With \<open>positive\<close> clamping the margin is \<open>margin \<times> D\<close>, \<open>D\<close> the metric's maximum
  distance, and the loss of a triplet is \<open>max 0 (delta + margin)\<close>: it is exactly 0 when
  \<open>delta + margin \<le> 0\<close>, and between any two triplets (of one call or of two calls on the
  same object) the one with the larger \<open>delta\<close> has the larger or equal loss.
\<close>

theorem positive_clamp_zero_and_monotone:
  assumes "init m mg c s = Inr self"
    and "clamp self = ''positive''"
    and "triplet_loss self distances anchors positives negatives = Inr (loss, delta, pos, neg)"
    and "triplet_loss self distances2 anchors2 positives2 negatives2 = Inr (loss2, delta2, pos2, neg2)"
  shows "(\<exists>D. max_distance m = Inr D \<and> margin' self = mg * D)
       \<and> length loss = length delta
       \<and> (\<forall>k<length delta. loss ! k = max 0 (delta ! k + margin' self))
       \<and> (\<forall>k<length delta. delta ! k + margin' self \<le> 0 \<longrightarrow> loss ! k = 0)
       \<and> (\<forall>k<length delta. \<forall>l<length delta2. delta ! k \<le> delta2 ! l \<longrightarrow> loss ! k \<le> loss2 ! l)"
proof -
  have D: "\<exists>D. max_distance m = Inr D \<and> margin' self = mg * D"
    using assms(1) by (auto simp: init_def split: sum.splits if_splits)
  have l1: "loss = map (\<lambda>x. max (x + margin' self) 0) delta"
    by (rule triplet_loss_positive [OF assms(2,3)])
  have l2: "loss2 = map (\<lambda>x. max (x + margin' self) 0) delta2"
    by (rule triplet_loss_positive [OF assms(2,4)])
  show ?thesis using D by (auto simp: l1 l2)
qed

theorem positive_clamp_zero_and_monotone_witness:
  "init ''cosine'' (1/5) ''positive'' ''all'' =
     Inr \<lparr>metric = ''cosine'', margin = 1/5, margin' = 1/5 * 2, clamp = ''positive'', sampling = ''all''\<rparr>
   \<and> triplet_loss \<lparr>metric = ''cosine'', margin = 1/5, margin' = 1/5 * 2, clamp = ''positive'', sampling = ''all''\<rparr>
       [1/10, 9/10, 7/10, 8/10, 6/10, 2/10] [0, 0] [1, 1] [2, 3]
     = Inr ([0, 0], [- (8/10), - (6/10)], [0, 0], [1, 2])
   \<and> triplet_loss \<lparr>metric = ''cosine'', margin = 1/5, margin' = 1/5 * 2, clamp = ''positive'', sampling = ''all''\<rparr>
       [1/10, 9/10, 7/10, 8/10, 6/10, 2/10] [2] [0] [3]
     = Inr ([11/10], [7/10], [1], [5])
   \<and> max_distance ''cosine'' = Inr 2
   \<and> [0, 0 :: real] ! 1 = max 0 ([- (8/10), - (6/10)] ! 1 + 1/5 * 2)
   \<and> [0, 0 :: real] ! 1 \<le> [11/10] ! 0"
proof -
  have c: "clamp \<lparr>metric = ''cosine'', margin = 1/5, margin' = 1/5 * 2, clamp = ''positive'', sampling = ''all''\<rparr> = ''positive''"
    by simp
  show ?thesis
    using positive_clamp_zero_and_monotone [OF init_cosine c triplet_loss_scenario triplet_loss_scenario_hard] init_cosine triplet_loss_scenario triplet_loss_scenario_hard
    by (simp add: max_distance_def)
qed



end
